theory Spec2Isabelle
  imports Main
begin

section \<open>Role-based access control of ReefGuard (core/decorators.py)\<close>

subsection \<open>Data model\<close>

text \<open>
  Modelled from the spec: the user model class is not part of core/decorators.py. A user
  has an authentication status and a \<open>role\<close> attribute. The guards read the role by
  dynamic attribute lookup (\<open>request.user.role\<close>), so a user object without the attribute
  (Django's stock anonymous user has none) is \<open>role = None\<close>, and reading it raises
  AttributeError. \<open>uid\<close> is the primary key of an account; an anonymous user object has
  no primary key, and its \<open>uid\<close> is never looked at.
\<close>

record user =
  uid :: nat
  is_authenticated :: bool
  role :: "string option"

text \<open>
  The request carries the user; \<open>path\<close> is the URL that the login redirect sends back as
  the place to return to.
\<close>

record request =
  user :: user
  path :: string

text \<open>
  Attribute values of a guarded object, as far as the ownership test looks at them:
  Python's None, a user, or anything else. An object is its attribute dictionary.
\<close>

datatype pyval = PyNone | PyUser user | PyOther string

type_synonym obj = "string \<Rightarrow> pyval option"

text \<open>The exceptions that can leave a guard.\<close>

datatype exn = PermissionDenied | AttributeError | Http404

text \<open>
  What a guarded entry point hands back to the framework: the wrapped handler's result,
  the redirect to the login page (with the path to come back to), or an exception.
\<close>

datatype 'r outcome = Returned 'r | RedirectToLogin string | Raised exn

text \<open>
  What a guard does to its collaborators, in program order: reading
  \<open>request.user.is_authenticated\<close>, reading \<open>request.user.role\<close>, calling
  \<open>self.get_object()\<close>, \<open>getattr(obj, name, None)\<close>, \<open>messages.error(request, text)\<close>, and
  calling the wrapped handler.
\<close>

datatype event =
    ReadIsAuthenticated
  | ReadRole
  | GetObject
  | GetAttr string
  | MessageError string
  | CallView

type_synonym 'r result = "event list \<times> 'r outcome"

definition emit :: "event list \<Rightarrow> event list \<times> 'x \<Rightarrow> event list \<times> 'x" where
  "emit es r = (es @ fst r, snd r)"

subsection \<open>The framework's collaborators\<close>

text \<open>Python's \<open>sep.join(xs)\<close>.\<close>

fun join :: "string \<Rightarrow> string list \<Rightarrow> string" where
  "join sep [] = []"
| "join sep [x] = x"
| "join sep (x # y # ys) = x @ sep @ join sep (y # ys)"

text \<open>Python's \<open>getattr(obj, name, default)\<close>: the default when the attribute is absent.\<close>

definition getattr :: "obj \<Rightarrow> string \<Rightarrow> pyval \<Rightarrow> pyval" where
  "getattr ob name dflt = (case ob name of None \<Rightarrow> dflt | Some v \<Rightarrow> v)"

text \<open>
  \<open>django.contrib.auth.decorators.login_required\<close>: the view runs for an authenticated
  user, anyone else is redirected to the login page.
\<close>

definition login_required ::
  "(request \<Rightarrow> 'a \<Rightarrow> 'r result) \<Rightarrow> request \<Rightarrow> 'a \<Rightarrow> 'r result" where
  "login_required view_func request args =
     emit [ReadIsAuthenticated]
       (if is_authenticated (user request) then view_func request args
        else ([], RedirectToLogin (path request)))"

text \<open>
  \<open>AccessMixin.raise_exception\<close>: Django's default, which no class of core/decorators.py
  overrides.
\<close>

definition raise_exception :: bool where
  "raise_exception = False"

text \<open>
  \<open>AccessMixin.handle_no_permission\<close>:
  \<^verbatim>\<open>if self.raise_exception or self.request.user.is_authenticated: raise PermissionDenied\<close>,
  otherwise the redirect to the login page.
\<close>

definition AccessMixin_handle_no_permission :: "request \<Rightarrow> 'r result" where
  "AccessMixin_handle_no_permission request =
     (if raise_exception then ([], Raised PermissionDenied)
      else emit [ReadIsAuthenticated]
        (if is_authenticated (user request) then ([], Raised PermissionDenied)
         else ([], RedirectToLogin (path request))))"

text \<open>
  \<open>LoginRequiredMixin.dispatch\<close>: \<open>self.handle_no_permission()\<close> for an unauthenticated
  user, otherwise \<open>super().dispatch\<close>. Both are resolved along the method resolution
  order of the class that mixes it in, so they are parameters here.
\<close>

definition LoginRequiredMixin_dispatch ::
  "(request \<Rightarrow> 'r result) \<Rightarrow> (request \<Rightarrow> 'a \<Rightarrow> 'r result) \<Rightarrow> request \<Rightarrow> 'a \<Rightarrow> 'r result" where
  "LoginRequiredMixin_dispatch handle_no_perm super_dispatch request args =
     emit [ReadIsAuthenticated]
       (if \<not> is_authenticated (user request) then handle_no_perm request
        else super_dispatch request args)"

text \<open>
  \<open>UserPassesTestMixin.dispatch\<close>: runs \<open>self.test_func()\<close>; a false result goes to
  \<open>self.handle_no_permission()\<close>, a true one to \<open>super().dispatch\<close>; an exception of the
  test propagates.
\<close>

definition UserPassesTestMixin_dispatch ::
  "(request \<Rightarrow> event list \<times> (exn + bool)) \<Rightarrow> (request \<Rightarrow> 'r result) \<Rightarrow>
   (request \<Rightarrow> 'a \<Rightarrow> 'r result) \<Rightarrow> request \<Rightarrow> 'a \<Rightarrow> 'r result" where
  "UserPassesTestMixin_dispatch test handle_no_perm super_dispatch request args =
     emit (fst (test request))
       (case snd (test request) of
          Inl e \<Rightarrow> ([], Raised e)
        | Inr user_test_result \<Rightarrow>
            if \<not> user_test_result then handle_no_perm request
            else super_dispatch request args)"

text \<open>
  \<open>View.dispatch\<close>, the end of every \<open>super().dispatch\<close> chain: the view's own handler
  runs and its response is returned.
\<close>

definition View_dispatch :: "(request \<Rightarrow> 'a \<Rightarrow> 'r) \<Rightarrow> request \<Rightarrow> 'a \<Rightarrow> 'r result" where
  "View_dispatch handler request args = ([CallView], Returned (handler request args))"

subsection \<open>The function guard\<close>

text \<open>The text that \<open>role_required\<close> and \<open>RoleRequiredMixin\<close> pass to \<open>messages.error\<close>.\<close>

definition denial_message :: "string list \<Rightarrow> string" where
  "denial_message roles =
     ''Access denied. This feature requires '' @ join '' or '' roles @ '' role.''"

text \<open>
  \<open>role_required(*roles)(view_func)\<close>: the wrapper of lines 26 to 34 under
  \<open>login_required\<close>.
\<close>

definition role_required ::
  "string list \<Rightarrow> (request \<Rightarrow> 'a \<Rightarrow> 'r) \<Rightarrow> request \<Rightarrow> 'a \<Rightarrow> 'r result" where
  "role_required roles view_func =
     login_required (\<lambda>request args.
       emit [ReadRole]
         (case role (user request) of
            None \<Rightarrow> ([], Raised AttributeError)
          | Some r \<Rightarrow>
              if r \<in> set roles then ([CallView], Returned (view_func request args))
              else ([MessageError (denial_message roles)], Raised PermissionDenied)))"

definition admin_required ::
  "(request \<Rightarrow> 'a \<Rightarrow> 'r) \<Rightarrow> request \<Rightarrow> 'a \<Rightarrow> 'r result" where
  "admin_required view_func = role_required [''admin''] view_func"

definition researcher_or_admin_required ::
  "(request \<Rightarrow> 'a \<Rightarrow> 'r) \<Rightarrow> request \<Rightarrow> 'a \<Rightarrow> 'r result" where
  "researcher_or_admin_required view_func = role_required [''admin'', ''researcher''] view_func"

subsection \<open>The class-based guard\<close>

text \<open>The class attribute that a subclass of \<open>RoleRequiredMixin\<close> sets.\<close>

record role_view =
  allowed_roles :: "string list"

definition RoleRequiredMixin :: role_view where
  "RoleRequiredMixin = \<lparr>allowed_roles = []\<rparr>"

definition AdminRequiredMixin :: role_view where
  "AdminRequiredMixin = \<lparr>allowed_roles = [''admin'']\<rparr>"

definition ResearcherOrAdminMixin :: role_view where
  "ResearcherOrAdminMixin = \<lparr>allowed_roles = [''admin'', ''researcher'']\<rparr>"

text \<open>
  \<open>RoleRequiredMixin.test_func\<close>: an empty \<open>allowed_roles\<close> returns True before the role is
  read.
\<close>

definition test_func :: "role_view \<Rightarrow> request \<Rightarrow> event list \<times> (exn + bool)" where
  "test_func self request =
     (if allowed_roles self = [] then ([], Inr True)
      else
        (case role (user request) of
           None \<Rightarrow> ([ReadRole], Inl AttributeError)
         | Some r \<Rightarrow> ([ReadRole], Inr (r \<in> set (allowed_roles self)))))"

text \<open>\<open>RoleRequiredMixin.handle_no_permission\<close>.\<close>

definition handle_no_permission :: "role_view \<Rightarrow> request \<Rightarrow> 'r result" where
  "handle_no_permission self request =
     emit [ReadIsAuthenticated]
       (if is_authenticated (user request)
        then ([MessageError (denial_message (allowed_roles self))], Raised PermissionDenied)
        else AccessMixin_handle_no_permission request)"

text \<open>
  \<open>dispatch\<close> of a view \<open>class V(RoleRequiredMixin, ...)\<close>: the method resolution order is
  RoleRequiredMixin, LoginRequiredMixin, UserPassesTestMixin, AccessMixin, then the view's
  own classes, so \<open>LoginRequiredMixin.dispatch\<close> runs first, its \<open>super().dispatch\<close> is
  \<open>UserPassesTestMixin.dispatch\<close>, and both reach \<open>RoleRequiredMixin.handle_no_permission\<close>.
\<close>

definition RoleRequiredMixin_dispatch ::
  "role_view \<Rightarrow> (request \<Rightarrow> 'a \<Rightarrow> 'r) \<Rightarrow> request \<Rightarrow> 'a \<Rightarrow> 'r result" where
  "RoleRequiredMixin_dispatch self handler =
     LoginRequiredMixin_dispatch (handle_no_permission self)
       (UserPassesTestMixin_dispatch (test_func self) (handle_no_permission self)
          (View_dispatch handler))"

subsection \<open>The ownership guard\<close>

record owner_view =
  owner_field :: string

definition StaffOrOwnerMixin :: owner_view where
  "StaffOrOwnerMixin = \<lparr>owner_field = ''user''\<rparr>"

text \<open>
  Python's \<open>==\<close> on two user objects. An account is a Django model instance, and
  \<open>Model.__eq__\<close> compares primary keys, whatever the other fields hold. An anonymous user
  object is no model instance: \<open>AnonymousUser.__eq__\<close> makes it equal to anonymous user
  objects only.
\<close>

definition user_eq :: "user \<Rightarrow> user \<Rightarrow> bool" where
  "user_eq a b =
     (if is_authenticated a \<and> is_authenticated b then uid a = uid b
      else \<not> is_authenticated a \<and> \<not> is_authenticated b)"

text \<open>
  \<open>owner == request.user\<close> of line 131: None and values that are no user equal no user.
\<close>

fun owner_eq :: "pyval \<Rightarrow> user \<Rightarrow> bool" where
  "owner_eq PyNone u = False"
| "owner_eq (PyUser a) u = user_eq a u"
| "owner_eq (PyOther s) u = False"

text \<open>
  \<open>StaffOrOwnerMixin.dispatch\<close>. \<open>get_object\<close> is the object lookup of the view that mixes
  the guard in; it works from the URL arguments and may raise (Http404 for a missing
  object). \<open>super().dispatch\<close> is \<open>LoginRequiredMixin.dispatch\<close>, whose
  \<open>handle_no_permission\<close> is the one of AccessMixin, as this class does not override it.
\<close>

definition StaffOrOwnerMixin_dispatch ::
  "owner_view \<Rightarrow> ('a \<Rightarrow> exn + obj) \<Rightarrow> (request \<Rightarrow> 'a \<Rightarrow> 'r) \<Rightarrow> request \<Rightarrow> 'a \<Rightarrow> 'r result" where
  "StaffOrOwnerMixin_dispatch self get_object handler request args =
     emit [GetObject]
       (case get_object args of
          Inl e \<Rightarrow> ([], Raised e)
        | Inr ob \<Rightarrow>
            (let owner = getattr ob (owner_field self) PyNone in
             emit [GetAttr (owner_field self), ReadRole]
               (case role (user request) of
                  None \<Rightarrow> ([], Raised AttributeError)
                | Some r \<Rightarrow>
                    if r \<in> set [''admin'', ''researcher''] \<or> owner_eq owner (user request)
                    then LoginRequiredMixin_dispatch AccessMixin_handle_no_permission
                           (View_dispatch handler) request args
                    else ([MessageError ''You do not have permission to access this resource.''],
                          Raised PermissionDenied))))"

subsection \<open>Reading results\<close>

text \<open>The messages attached to the request, in order.\<close>

fun messages_of :: "event list \<Rightarrow> string list" where
  "messages_of [] = []"
| "messages_of (MessageError m # es) = m # messages_of es"
| "messages_of (e # es) = messages_of es"

text \<open>How often the wrapped handler was called.\<close>

fun calls_of :: "event list \<Rightarrow> nat" where
  "calls_of [] = 0"
| "calls_of (CallView # es) = Suc (calls_of es)"
| "calls_of (e # es) = calls_of es"

text \<open>A request is permitted when the wrapped handler's result comes back.\<close>

fun permitted :: "'r outcome \<Rightarrow> bool" where
  "permitted (Returned x) = True"
| "permitted (RedirectToLogin p) = False"
| "permitted (Raised e) = False"



text \<open>
  What the framework and the user can observe of an evaluation: the messages attached,
  the number of handler calls and the outcome.
\<close>

definition observable :: "'r result \<Rightarrow> string list \<times> nat \<times> 'r outcome" where
  "observable res = (messages_of (fst res), calls_of (fst res), snd res)"

subsection \<open>Evaluations in sequence\<close>









subsection \<open>Sample users, requests and objects\<close>

text \<open>
  Concrete inputs at which the theorems below are instantiated: Django's stock anonymous
  user (no \<open>role\<close> attribute), an anonymous user object that does carry a role, and
  accounts of the three roles.
\<close>

definition anonymous_user :: user where
  "anonymous_user = \<lparr>uid = 0, is_authenticated = False, role = None\<rparr>"

definition anonymous_guest :: user where
  "anonymous_guest = \<lparr>uid = 0, is_authenticated = False, role = Some ''guest''\<rparr>"

definition admin_user :: user where
  "admin_user = \<lparr>uid = 1, is_authenticated = True, role = Some ''admin''\<rparr>"

definition researcher_user :: user where
  "researcher_user = \<lparr>uid = 2, is_authenticated = True, role = Some ''researcher''\<rparr>"

definition member_user :: user where
  "member_user = \<lparr>uid = 3, is_authenticated = True, role = Some ''member''\<rparr>"

definition other_member :: user where
  "other_member = \<lparr>uid = 4, is_authenticated = True, role = Some ''member''\<rparr>"

text \<open>The account of \<open>member_user\<close> as an object fetched earlier, when its role was another.\<close>

definition member_user_before :: user where
  "member_user_before = \<lparr>uid = 3, is_authenticated = True, role = Some ''editor''\<rparr>"

definition request_of :: "user \<Rightarrow> request" where
  "request_of u = \<lparr>user = u, path = ''/events/7/edit/''\<rparr>"

text \<open>An object whose \<open>user\<close> attribute is the given owner, and one with no owner attribute.\<close>

definition owned_by :: "user \<Rightarrow> obj" where
  "owned_by u = Map.empty(''user'' \<mapsto> PyUser u, ''title'' \<mapsto> PyOther ''bleaching'')"

definition unowned :: obj where
  "unowned = Map.empty(''title'' \<mapsto> PyOther ''bleaching'')"

subsection \<open>Case lemmas\<close>

text \<open>Each guard, path by path: the collaborators it touches and what it hands back.\<close>

lemmas guard_defs = role_required_def login_required_def emit_def

lemma role_required_unauthenticated:
  assumes "\<not> is_authenticated (user request)"
  shows "role_required roles f request args =
           ([ReadIsAuthenticated], RedirectToLogin (path request))"
  using assms by (simp add: guard_defs)

lemma role_required_member:
  assumes "is_authenticated (user request)" and "role (user request) = Some r"
    and "r \<in> set roles"
  shows "role_required roles f request args =
           ([ReadIsAuthenticated, ReadRole, CallView], Returned (f request args))"
  using assms by (simp add: guard_defs)

lemma role_required_nonmember:
  assumes "is_authenticated (user request)" and "role (user request) = Some r"
    and "r \<notin> set roles"
  shows "role_required roles f request args =
           ([ReadIsAuthenticated, ReadRole, MessageError (denial_message roles)],
            Raised PermissionDenied)"
  using assms by (simp add: guard_defs)

lemma role_required_no_role:
  assumes "is_authenticated (user request)" and "role (user request) = None"
  shows "role_required roles f request args =
           ([ReadIsAuthenticated, ReadRole], Raised AttributeError)"
  using assms by (simp add: guard_defs)

lemmas mixin_defs = RoleRequiredMixin_dispatch_def LoginRequiredMixin_dispatch_def
  UserPassesTestMixin_dispatch_def View_dispatch_def handle_no_permission_def
  AccessMixin_handle_no_permission_def raise_exception_def test_func_def emit_def

lemma mixin_unauthenticated:
  assumes "\<not> is_authenticated (user request)"
  shows "RoleRequiredMixin_dispatch v h request args =
           ([ReadIsAuthenticated, ReadIsAuthenticated, ReadIsAuthenticated],
            RedirectToLogin (path request))"
  using assms by (simp add: mixin_defs)

lemma mixin_empty:
  assumes "is_authenticated (user request)" and "allowed_roles v = []"
  shows "RoleRequiredMixin_dispatch v h request args =
           ([ReadIsAuthenticated, CallView], Returned (h request args))"
  using assms by (simp add: mixin_defs)

lemma mixin_member:
  assumes "is_authenticated (user request)" and "role (user request) = Some r"
    and "r \<in> set (allowed_roles v)"
  shows "RoleRequiredMixin_dispatch v h request args =
           ([ReadIsAuthenticated, ReadRole, CallView], Returned (h request args))"
  using assms by (auto simp add: mixin_defs)

lemma mixin_nonmember:
  assumes "is_authenticated (user request)" and "role (user request) = Some r"
    and "r \<notin> set (allowed_roles v)" and "allowed_roles v \<noteq> []"
  shows "RoleRequiredMixin_dispatch v h request args =
           ([ReadIsAuthenticated, ReadRole, ReadIsAuthenticated,
             MessageError (denial_message (allowed_roles v))],
            Raised PermissionDenied)"
  using assms by (simp add: mixin_defs)

lemma mixin_no_role:
  assumes "is_authenticated (user request)" and "role (user request) = None"
    and "allowed_roles v \<noteq> []"
  shows "RoleRequiredMixin_dispatch v h request args =
           ([ReadIsAuthenticated, ReadRole], Raised AttributeError)"
  using assms by (simp add: mixin_defs)

lemmas owner_defs = StaffOrOwnerMixin_dispatch_def LoginRequiredMixin_dispatch_def
  View_dispatch_def AccessMixin_handle_no_permission_def raise_exception_def emit_def

lemma owner_lookup_fails:
  assumes "get_object args = Inl e"
  shows "StaffOrOwnerMixin_dispatch self get_object h request args = ([GetObject], Raised e)"
  using assms by (simp add: owner_defs)

lemma owner_no_role:
  assumes "get_object args = Inr ob" and "role (user request) = None"
  shows "StaffOrOwnerMixin_dispatch self get_object h request args =
           ([GetObject, GetAttr (owner_field self), ReadRole], Raised AttributeError)"
  using assms by (simp add: owner_defs)

lemma owner_test_fails:
  assumes "get_object args = Inr ob" and "role (user request) = Some r"
    and "\<not> (r \<in> set [''admin'', ''researcher''] \<or>
            owner_eq (getattr ob (owner_field self) PyNone) (user request))"
  shows "StaffOrOwnerMixin_dispatch self get_object h request args =
           ([GetObject, GetAttr (owner_field self), ReadRole,
             MessageError ''You do not have permission to access this resource.''],
            Raised PermissionDenied)"
  using assms by (simp add: owner_defs)

lemma owner_test_passes_authenticated:
  assumes "get_object args = Inr ob" and "role (user request) = Some r"
    and "r \<in> set [''admin'', ''researcher''] \<or>
         owner_eq (getattr ob (owner_field self) PyNone) (user request)"
    and "is_authenticated (user request)"
  shows "StaffOrOwnerMixin_dispatch self get_object h request args =
           ([GetObject, GetAttr (owner_field self), ReadRole, ReadIsAuthenticated, CallView],
            Returned (h request args))"
  using assms by (simp add: owner_defs)

lemma owner_test_passes_unauthenticated:
  assumes "get_object args = Inr ob" and "role (user request) = Some r"
    and "r \<in> set [''admin'', ''researcher''] \<or>
         owner_eq (getattr ob (owner_field self) PyNone) (user request)"
    and "\<not> is_authenticated (user request)"
  shows "StaffOrOwnerMixin_dispatch self get_object h request args =
           ([GetObject, GetAttr (owner_field self), ReadRole, ReadIsAuthenticated,
             ReadIsAuthenticated],
            RedirectToLogin (path request))"
  using assms by (simp add: owner_defs)

lemmas sample_defs = anonymous_user_def anonymous_guest_def admin_user_def
  researcher_user_def member_user_def other_member_def member_user_before_def request_of_def owned_by_def unowned_def
  StaffOrOwnerMixin_def RoleRequiredMixin_def AdminRequiredMixin_def ResearcherOrAdminMixin_def

lemma getattr_absent:
  assumes "ob name = None"
  shows "getattr ob name dflt = dflt"
  using assms by (simp add: getattr_def)

lemma mixin_matches_function_guard:
  assumes "allowed_roles v \<noteq> []"
  shows "observable (RoleRequiredMixin_dispatch v f request args)
       = observable (role_required (allowed_roles v) f request args)"
proof (cases "is_authenticated (user request)")
  case False
  then show ?thesis
    by (simp add: observable_def mixin_unauthenticated role_required_unauthenticated)
next
  case auth: True
  show ?thesis
  proof (cases "role (user request)")
    case None
    with auth assms show ?thesis
      by (simp add: observable_def mixin_no_role role_required_no_role)
  next
    case (Some r)
    show ?thesis
    proof (cases "r \<in> set (allowed_roles v)")
      case True
      with auth Some show ?thesis
        by (simp add: observable_def mixin_member role_required_member)
    next
      case False
      with auth Some assms show ?thesis
        by (simp add: observable_def mixin_nonmember role_required_nonmember)
    qed
  qed
qed


lemma role_required_messages:
  "messages_of (fst (role_required roles f request args)) =
     (if \<not> is_authenticated (user request) then []
      else case role (user request) of
             None \<Rightarrow> []
           | Some r \<Rightarrow> if r \<in> set roles then [] else [denial_message roles])"
  by (simp add: guard_defs split: option.splits)


lemma mixin_messages:
  "messages_of (fst (RoleRequiredMixin_dispatch v h request args)) =
     (if \<not> is_authenticated (user request) then []
      else if allowed_roles v = [] then []
      else case role (user request) of
             None \<Rightarrow> []
           | Some r \<Rightarrow> if r \<in> set (allowed_roles v) then [] else [denial_message (allowed_roles v)])"
  by (simp add: mixin_defs split: option.splits)














subsection \<open>Unauthenticated requests\<close>

text \<open>
  C1. An unauthenticated request to a guarded endpoint is to end in the redirect to the
  login page, never in PermissionDenied. The function guard and the role mixin do so
  (\<open>role_required_unauthenticated\<close>, \<open>mixin_unauthenticated\<close>). The ownership mixin does
  not: \<open>StaffOrOwnerMixin.dispatch\<close> looks the object up and reads the role before
  \<open>LoginRequiredMixin.dispatch\<close> gets to run. For Django's stock anonymous user the read
  of \<open>request.user.role\<close> raises AttributeError; for an anonymous user object that carries
  a role outside admin and researcher, the message is attached and PermissionDenied is
  raised. Neither visitor is redirected to the login page.
\<close>

theorem staff_or_owner_unauthenticated_not_redirected:
  "StaffOrOwnerMixin_dispatch StaffOrOwnerMixin (\<lambda>pk. Inr (owned_by member_user)) (\<lambda>rq pk. ''form'')
       (request_of anonymous_user) (7::nat)
     = ([GetObject, GetAttr ''user'', ReadRole], Raised AttributeError)
   \<and> StaffOrOwnerMixin_dispatch StaffOrOwnerMixin (\<lambda>pk. Inr (owned_by member_user)) (\<lambda>rq pk. ''form'')
       (request_of anonymous_guest) (7::nat)
     = ([GetObject, GetAttr ''user'', ReadRole,
         MessageError ''You do not have permission to access this resource.''],
        Raised PermissionDenied)"
  by (simp add: owner_defs sample_defs getattr_def user_eq_def)


subsection \<open>The role mixin's test\<close>

text \<open>
  C2. \<open>RoleRequiredMixin.test_func\<close> returns True exactly when \<open>allowed_roles\<close> is empty or
  the requester's role is one of them; with the default, empty \<open>allowed_roles\<close> every
  authenticated user reaches the view.
\<close>

theorem test_func_true_iff_empty_or_member:
  "(snd (test_func self request) = Inr True \<longleftrightarrow>
      allowed_roles self = [] \<or>
      (\<exists>r. role (user request) = Some r \<and> r \<in> set (allowed_roles self)))
   \<and> (is_authenticated (user request) \<longrightarrow>
        RoleRequiredMixin_dispatch RoleRequiredMixin h request args =
          ([ReadIsAuthenticated, CallView], Returned (h request args)))"
  by (auto simp add: test_func_def mixin_empty RoleRequiredMixin_def split: option.splits)

theorem test_func_true_iff_empty_or_member_witness:
  "is_authenticated (user (request_of member_user))
   \<and> snd (test_func RoleRequiredMixin (request_of member_user)) = Inr True
   \<and> snd (test_func ResearcherOrAdminMixin (request_of researcher_user)) = Inr True
   \<and> snd (test_func ResearcherOrAdminMixin (request_of member_user)) \<noteq> Inr True
   \<and> RoleRequiredMixin_dispatch RoleRequiredMixin (\<lambda>rq pk. ''page'') (request_of member_user) (7::nat) =
       ([ReadIsAuthenticated, CallView], Returned ''page'')"
  using test_func_true_iff_empty_or_member [of RoleRequiredMixin "request_of member_user" "\<lambda>rq pk. ''page''" "7::nat"]
    test_func_true_iff_empty_or_member [of ResearcherOrAdminMixin "request_of researcher_user" "\<lambda>rq pk. ''page''" "7::nat"]
    test_func_true_iff_empty_or_member [of ResearcherOrAdminMixin "request_of member_user" "\<lambda>rq pk. ''page''" "7::nat"]
  by (simp add: sample_defs)

subsection \<open>The role policy of the function guard\<close>

text \<open>
  C3. For a role \<open>r\<close> and an allowed list \<open>S\<close>, the function guard lets an authenticated
  user of role \<open>r\<close> through exactly when \<open>r\<close> is in \<open>S\<close>. With \<open>S\<close> empty it denies
  every role, whereas the class-based mixin with its empty default lets everyone through.
\<close>

theorem role_policy_is_membership:
  assumes "is_authenticated (user request)" and "role (user request) = Some r"
  shows "(permitted (snd (role_required S f request args)) \<longleftrightarrow> r \<in> set S)
       \<and> snd (role_required [] f request args) = Raised PermissionDenied
       \<and> snd (RoleRequiredMixin_dispatch RoleRequiredMixin f request args) = Returned (f request args)"
proof -
  have "permitted (snd (role_required S f request args)) \<longleftrightarrow> r \<in> set S"
    using assms by (cases "r \<in> set S") (simp_all add: role_required_member role_required_nonmember)
  moreover have "snd (role_required [] f request args) = Raised PermissionDenied"
    using assms by (simp add: role_required_nonmember)
  moreover have "snd (RoleRequiredMixin_dispatch RoleRequiredMixin f request args) = Returned (f request args)"
    using assms by (simp add: mixin_empty RoleRequiredMixin_def)
  ultimately show ?thesis by simp
qed

theorem role_policy_is_membership_witness:
  "is_authenticated (user (request_of member_user)) \<and> role (user (request_of member_user)) = Some ''member''
   \<and> \<not> permitted (snd (role_required [''admin'', ''researcher''] (\<lambda>rq pk. ''page'') (request_of member_user) (7::nat)))
   \<and> permitted (snd (role_required [''member''] (\<lambda>rq pk. ''page'') (request_of member_user) (7::nat)))
   \<and> snd (role_required [] (\<lambda>rq pk. ''page'') (request_of member_user) (7::nat)) = Raised PermissionDenied
   \<and> snd (RoleRequiredMixin_dispatch RoleRequiredMixin (\<lambda>rq pk. ''page'') (request_of member_user) (7::nat))
       = Returned ''page''"
  using role_policy_is_membership [of "request_of member_user" "''member''" "[''admin'', ''researcher'']" "\<lambda>rq pk. ''page''" "7::nat"]
    role_policy_is_membership [of "request_of member_user" "''member''" "[''member'']" "\<lambda>rq pk. ''page''" "7::nat"]
  by (simp add: sample_defs)

subsection \<open>Denial by the function guard\<close>

text \<open>
  C5. An authenticated user whose role is not in the function guard's roles gets the
  message "Access denied. This feature requires X or Y role." (the roles joined by
  " or ") attached, PermissionDenied is raised, and the wrapped handler is not called.
\<close>

theorem role_required_denies_with_message:
  assumes "is_authenticated (user request)" and "role (user request) = Some r" and "r \<notin> set roles"
  shows "role_required roles f request args =
           ([ReadIsAuthenticated, ReadRole,
             MessageError (''Access denied. This feature requires '' @ join '' or '' roles @ '' role.'')],
            Raised PermissionDenied)
       \<and> calls_of (fst (role_required roles f request args)) = 0"
  using assms by (simp add: role_required_nonmember denial_message_def)

theorem role_required_denies_with_message_witness:
  "is_authenticated (user (request_of member_user)) \<and> role (user (request_of member_user)) = Some ''member''
   \<and> ''member'' \<notin> set [''admin'', ''researcher'']
   \<and> role_required [''admin'', ''researcher''] (\<lambda>rq pk. ''page'') (request_of member_user) (7::nat) =
       ([ReadIsAuthenticated, ReadRole,
         MessageError ''Access denied. This feature requires admin or researcher role.''],
        Raised PermissionDenied)"
  using role_required_denies_with_message [of "request_of member_user" "''member''" "[''admin'', ''researcher'']" "\<lambda>rq pk. ''page''" "7::nat"]
  by (simp add: sample_defs)

subsection \<open>Permission by the function guard\<close>

text \<open>
  C6. An authenticated user whose role is in the function guard's roles has the wrapped
  handler called with the request and arguments as they came in; its result is returned
  as it is, no message is attached, and the handler is called once.
\<close>

theorem role_required_passes_through:
  assumes "is_authenticated (user request)" and "role (user request) = Some r" and "r \<in> set roles"
  shows "role_required roles f request args =
           ([ReadIsAuthenticated, ReadRole, CallView], Returned (f request args))
       \<and> messages_of (fst (role_required roles f request args)) = []
       \<and> calls_of (fst (role_required roles f request args)) = 1"
  using assms by (simp add: role_required_member)

theorem role_required_passes_through_witness:
  "is_authenticated (user (request_of admin_user)) \<and> role (user (request_of admin_user)) = Some ''admin''
   \<and> ''admin'' \<in> set [''admin'', ''researcher'']
   \<and> role_required [''admin'', ''researcher''] (\<lambda>rq pk. (path rq, pk)) (request_of admin_user) (7::nat) =
       ([ReadIsAuthenticated, ReadRole, CallView], Returned (''/events/7/edit/'', 7))"
  using role_required_passes_through [of "request_of admin_user" "''admin''" "[''admin'', ''researcher'']" "\<lambda>rq pk. (path rq, pk)" "7::nat"]
  by (simp add: sample_defs)

subsection \<open>Presets\<close>

text \<open>
  C8. \<open>admin_required\<close> is the function guard for the role admin,
  \<open>researcher_or_admin_required\<close> the one for admin and researcher, and
  \<open>AdminRequiredMixin\<close> and \<open>ResearcherOrAdminMixin\<close> behave as those presets on every
  request: the same messages attached, the same number of handler calls, the same outcome.
\<close>

theorem presets_are_role_required:
  "admin_required f request args = role_required [''admin''] f request args
   \<and> researcher_or_admin_required f request args = role_required [''admin'', ''researcher''] f request args
   \<and> observable (RoleRequiredMixin_dispatch AdminRequiredMixin f request args)
       = observable (admin_required f request args)
   \<and> observable (RoleRequiredMixin_dispatch ResearcherOrAdminMixin f request args)
       = observable (researcher_or_admin_required f request args)"
  using mixin_matches_function_guard [of AdminRequiredMixin f request args]
    mixin_matches_function_guard [of ResearcherOrAdminMixin f request args]
  by (simp add: admin_required_def researcher_or_admin_required_def
      AdminRequiredMixin_def ResearcherOrAdminMixin_def)

theorem presets_are_role_required_witness:
  "observable (RoleRequiredMixin_dispatch AdminRequiredMixin (\<lambda>rq pk. ''page'') (request_of researcher_user) (7::nat))
     = ([''Access denied. This feature requires admin role.''], 0, Raised PermissionDenied)
   \<and> observable (admin_required (\<lambda>rq pk. ''page'') (request_of researcher_user) (7::nat))
     = ([''Access denied. This feature requires admin role.''], 0, Raised PermissionDenied)
   \<and> observable (RoleRequiredMixin_dispatch ResearcherOrAdminMixin (\<lambda>rq pk. ''page'') (request_of researcher_user) (7::nat))
     = ([], 1, Returned ''page'')"
  using presets_are_role_required [of "\<lambda>rq pk. ''page''" "request_of researcher_user" "7::nat"]
  by (simp add: sample_defs observable_def guard_defs denial_message_def)


subsection \<open>No state between evaluations\<close>



subsection \<open>The ownership guard\<close>

text \<open>
  C4, as stated: dispatch is permitted exactly for an authenticated requester who is admin
  or researcher or equals the value of the object's owner field, and every other request is
  denied with PermissionDenied. The second half fails for a visitor who is not logged in:
  Django's anonymous user has no role, the read of \<open>request.user.role\<close> raises
  AttributeError, and no PermissionDenied is raised.
\<close>

theorem staff_or_owner_otherwise_counterexample:
  "\<not> is_authenticated (user (request_of anonymous_user))
   \<and> \<not> permitted (snd (StaffOrOwnerMixin_dispatch StaffOrOwnerMixin (\<lambda>pk. Inr (owned_by member_user))
            (\<lambda>rq pk. ''form'') (request_of anonymous_user) (7::nat)))
   \<and> snd (StaffOrOwnerMixin_dispatch StaffOrOwnerMixin (\<lambda>pk. Inr (owned_by member_user))
            (\<lambda>rq pk. ''form'') (request_of anonymous_user) (7::nat))
       = Raised AttributeError
   \<and> snd (StaffOrOwnerMixin_dispatch StaffOrOwnerMixin (\<lambda>pk. Inr (owned_by member_user))
            (\<lambda>rq pk. ''form'') (request_of anonymous_user) (7::nat))
       \<noteq> Raised PermissionDenied"
  by (simp add: owner_defs sample_defs getattr_def)

text \<open>
  C4, amended: dispatch is permitted exactly when the requester is authenticated,
  \<open>get_object()\<close> returns the target object, the requester has a role, and either that role
  is admin or researcher or the requester equals the value of the object's owner field
  (Python's \<open>==\<close>: for accounts, the same primary key); the view's response is then returned
  as it is. An authenticated requester with a role who is neither is denied with
  PermissionDenied after the generic message is attached. What a requester who is not
  authenticated gets in place of the view is no part of this statement.
\<close>

theorem staff_or_owner_permits_iff:
  "(permitted (snd (StaffOrOwnerMixin_dispatch self get_object h request args)) \<longleftrightarrow>
      is_authenticated (user request) \<and>
      (\<exists>found r. get_object args = Inr found \<and> role (user request) = Some r \<and>
         (r \<in> set [''admin'', ''researcher''] \<or>
          owner_eq (getattr found (owner_field self) PyNone) (user request))))
   \<and> (permitted (snd (StaffOrOwnerMixin_dispatch self get_object h request args)) \<longrightarrow>
        snd (StaffOrOwnerMixin_dispatch self get_object h request args) = Returned (h request args))
   \<and> (is_authenticated (user request) \<and> get_object args = Inr ob \<and>
        role (user request) = Some role_name \<and>
        \<not> (role_name \<in> set [''admin'', ''researcher''] \<or>
           owner_eq (getattr ob (owner_field self) PyNone) (user request)) \<longrightarrow>
        snd (StaffOrOwnerMixin_dispatch self get_object h request args) = Raised PermissionDenied \<and>
        messages_of (fst (StaffOrOwnerMixin_dispatch self get_object h request args)) =
          [''You do not have permission to access this resource.''])
   \<and> (owner_eq (PyUser account) (user request) \<longleftrightarrow>
        (if is_authenticated account \<and> is_authenticated (user request)
         then uid account = uid (user request)
         else \<not> is_authenticated account \<and> \<not> is_authenticated (user request)))"
proof -
  let ?D = "StaffOrOwnerMixin_dispatch self get_object h request args"
  let ?passes = "\<lambda>found r. r \<in> set [''admin'', ''researcher''] \<or>
                   owner_eq (getattr found (owner_field self) PyNone) (user request)"
  let ?cond = "is_authenticated (user request) \<and>
               (\<exists>found r. get_object args = Inr found \<and> role (user request) = Some r \<and> ?passes found r)"
  have main: "(permitted (snd ?D) \<longleftrightarrow> ?cond) \<and> (permitted (snd ?D) \<longrightarrow> snd ?D = Returned (h request args))"
  proof (cases "get_object args")
    case (Inl e)
    then have "?D = ([GetObject], Raised e)" by (rule owner_lookup_fails)
    with Inl show ?thesis by simp
  next
    case found: (Inr found)
    show ?thesis
    proof (cases "role (user request)")
      case None
      with found have "?D = ([GetObject, GetAttr (owner_field self), ReadRole], Raised AttributeError)"
        by (rule owner_no_role)
      with found None show ?thesis by simp
    next
      case (Some r)
      show ?thesis
      proof (cases "?passes found r")
        case fails: False
        have "?D = ([GetObject, GetAttr (owner_field self), ReadRole,
                     MessageError ''You do not have permission to access this resource.''],
                    Raised PermissionDenied)"
          using found Some fails by (rule owner_test_fails)
        with found Some fails show ?thesis by simp
      next
        case passes: True
        show ?thesis
        proof (cases "is_authenticated (user request)")
          case True
          have "?D = ([GetObject, GetAttr (owner_field self), ReadRole, ReadIsAuthenticated, CallView],
                      Returned (h request args))"
            using found Some passes True by (rule owner_test_passes_authenticated)
          with found Some passes True show ?thesis by simp
        next
          case False
          have "?D = ([GetObject, GetAttr (owner_field self), ReadRole, ReadIsAuthenticated,
                       ReadIsAuthenticated], RedirectToLogin (path request))"
            using found Some passes False by (rule owner_test_passes_unauthenticated)
          with False show ?thesis by simp
        qed
      qed
    qed
  qed
  have denied: "snd ?D = Raised PermissionDenied \<and>
                messages_of (fst ?D) = [''You do not have permission to access this resource.'']"
    if "get_object args = Inr ob" and "role (user request) = Some role_name"
      and "\<not> (role_name \<in> set [''admin'', ''researcher''] \<or>
              owner_eq (getattr ob (owner_field self) PyNone) (user request))"
  proof -
    have "?D = ([GetObject, GetAttr (owner_field self), ReadRole,
                 MessageError ''You do not have permission to access this resource.''],
                Raised PermissionDenied)"
      using that by (rule owner_test_fails)
    then show ?thesis by simp
  qed
  have eq: "owner_eq (PyUser account) (user request) \<longleftrightarrow>
        (if is_authenticated account \<and> is_authenticated (user request)
         then uid account = uid (user request)
         else \<not> is_authenticated account \<and> \<not> is_authenticated (user request))"
    by (simp add: user_eq_def)
  from main denied eq show ?thesis by blast
qed

theorem staff_or_owner_permits_iff_witness:
  "snd (StaffOrOwnerMixin_dispatch StaffOrOwnerMixin (\<lambda>pk. Inr (owned_by member_user))
          (\<lambda>rq pk. ''form'') (request_of member_user) (7::nat)) = Returned ''form''
   \<and> snd (StaffOrOwnerMixin_dispatch StaffOrOwnerMixin (\<lambda>pk. Inr (owned_by member_user_before))
          (\<lambda>rq pk. ''form'') (request_of member_user) (7::nat)) = Returned ''form''
   \<and> snd (StaffOrOwnerMixin_dispatch StaffOrOwnerMixin (\<lambda>pk. Inr (owned_by member_user))
          (\<lambda>rq pk. ''form'') (request_of other_member) (7::nat)) = Raised PermissionDenied
   \<and> messages_of (fst (StaffOrOwnerMixin_dispatch StaffOrOwnerMixin (\<lambda>pk. Inr (owned_by member_user))
          (\<lambda>rq pk. ''form'') (request_of other_member) (7::nat)))
       = [''You do not have permission to access this resource.'']
   \<and> snd (StaffOrOwnerMixin_dispatch StaffOrOwnerMixin (\<lambda>pk. Inr (owned_by member_user))
          (\<lambda>rq pk. ''form'') (request_of researcher_user) (7::nat)) = Returned ''form''
   \<and> \<not> permitted (snd (StaffOrOwnerMixin_dispatch StaffOrOwnerMixin (\<lambda>pk. Inr (owned_by member_user))
          (\<lambda>rq pk. ''form'') (request_of anonymous_user) (7::nat)))"
  using staff_or_owner_permits_iff [of StaffOrOwnerMixin "\<lambda>pk. Inr (owned_by member_user)"
        "\<lambda>rq pk. ''form''" "request_of member_user" "7::nat" "owned_by member_user" "''member''" member_user]
    staff_or_owner_permits_iff [of StaffOrOwnerMixin "\<lambda>pk. Inr (owned_by member_user_before)"
        "\<lambda>rq pk. ''form''" "request_of member_user" "7::nat" "owned_by member_user_before" "''member''"
        member_user_before]
    staff_or_owner_permits_iff [of StaffOrOwnerMixin "\<lambda>pk. Inr (owned_by member_user)"
        "\<lambda>rq pk. ''form''" "request_of other_member" "7::nat" "owned_by member_user" "''member''" member_user]
    staff_or_owner_permits_iff [of StaffOrOwnerMixin "\<lambda>pk. Inr (owned_by member_user)"
        "\<lambda>rq pk. ''form''" "request_of researcher_user" "7::nat" "owned_by member_user" "''researcher''"
        member_user]
    staff_or_owner_permits_iff [of StaffOrOwnerMixin "\<lambda>pk. Inr (owned_by member_user)"
        "\<lambda>rq pk. ''form''" "request_of anonymous_user" "7::nat" "owned_by member_user" "''member''"
        member_user]
  by (simp add: sample_defs getattr_def user_eq_def)

text \<open>
  C7. When the configured owner field is absent on the object, \<open>getattr\<close> yields None, which
  equals no user: the ownership comparison is false and the lookup raises nothing. A
  requester who is neither admin nor researcher is then denied with PermissionDenied.
\<close>

theorem absent_owner_field_is_no_match:
  assumes "ob (owner_field self) = None"
  shows "getattr ob (owner_field self) PyNone = PyNone
       \<and> getattr ob (owner_field self) PyNone \<noteq> PyUser (user request)
       \<and> \<not> owner_eq (getattr ob (owner_field self) PyNone) (user request)
       \<and> (get_object args = Inr ob \<and> role (user request) = Some r \<and>
            r \<notin> set [''admin'', ''researcher''] \<longrightarrow>
            StaffOrOwnerMixin_dispatch self get_object h request args =
              ([GetObject, GetAttr (owner_field self), ReadRole,
                MessageError ''You do not have permission to access this resource.''],
               Raised PermissionDenied))"
proof -
  have none: "getattr ob (owner_field self) PyNone = PyNone"
    using assms by (rule getattr_absent)
  then have no_match: "\<not> owner_eq (getattr ob (owner_field self) PyNone) (user request)"
    by simp
  have "StaffOrOwnerMixin_dispatch self get_object h request args =
          ([GetObject, GetAttr (owner_field self), ReadRole,
            MessageError ''You do not have permission to access this resource.''],
           Raised PermissionDenied)"
    if "get_object args = Inr ob" and "role (user request) = Some r"
      and "r \<notin> set [''admin'', ''researcher'']"
  proof -
    have "\<not> (r \<in> set [''admin'', ''researcher''] \<or>
             owner_eq (getattr ob (owner_field self) PyNone) (user request))"
      using that(3) no_match by blast
    with that(1,2) show ?thesis by (rule owner_test_fails)
  qed
  with none no_match show ?thesis by simp
qed

theorem absent_owner_field_is_no_match_witness:
  "unowned (owner_field StaffOrOwnerMixin) = None
   \<and> getattr unowned (owner_field StaffOrOwnerMixin) PyNone = PyNone
   \<and> StaffOrOwnerMixin_dispatch StaffOrOwnerMixin (\<lambda>pk. Inr unowned) (\<lambda>rq pk. ''form'')
        (request_of member_user) (7::nat) =
       ([GetObject, GetAttr ''user'', ReadRole,
         MessageError ''You do not have permission to access this resource.''],
        Raised PermissionDenied)"
  using absent_owner_field_is_no_match [of unowned StaffOrOwnerMixin "request_of member_user"
        "\<lambda>pk. Inr unowned" "7::nat" "''member''" "\<lambda>rq pk. ''form''"]
  by (simp add: sample_defs)

text \<open>
  C10, as stated: for every incoming request the object is looked up and the requester's
  role is read before the login check, unauthenticated requests included. The role is not
  read for every request: when \<open>get_object()\<close> raises, as it does with Http404 for an
  object that is not there, the exception leaves \<open>dispatch\<close> and the role is never read.
\<close>

theorem staff_or_owner_role_read_counterexample:
  "\<not> is_authenticated (user (request_of anonymous_user))
   \<and> StaffOrOwnerMixin_dispatch StaffOrOwnerMixin (\<lambda>pk. Inl Http404) (\<lambda>rq pk. ''form'')
        (request_of anonymous_user) (7::nat) = ([GetObject], Raised Http404)
   \<and> ReadRole \<notin> set (fst (StaffOrOwnerMixin_dispatch StaffOrOwnerMixin (\<lambda>pk. Inl Http404)
        (\<lambda>rq pk. ''form'') (request_of anonymous_user) (7::nat)))"
  by (simp add: owner_defs sample_defs)

text \<open>
  C10, amended: \<open>StaffOrOwnerMixin.dispatch\<close> starts with \<open>get_object()\<close> for every request.
  When the lookup raises, its exception is the outcome and nothing else happens. When it
  returns the object, the owner attribute and the requester's role are read next, for every
  request, authenticated or not, permitted or not. The login check of
  \<open>LoginRequiredMixin.dispatch\<close> comes after them, and only when the role-or-owner test has
  passed.
\<close>

theorem staff_or_owner_reads_before_login_check:
  "take 1 (fst (StaffOrOwnerMixin_dispatch self get_object h request args)) = [GetObject]
   \<and> (get_object args = Inl e \<longrightarrow>
        StaffOrOwnerMixin_dispatch self get_object h request args = ([GetObject], Raised e))
   \<and> (get_object args = Inr ob \<longrightarrow>
        take 3 (fst (StaffOrOwnerMixin_dispatch self get_object h request args)) =
          [GetObject, GetAttr (owner_field self), ReadRole]
        \<and> (ReadIsAuthenticated \<in> set (drop 3 (fst (StaffOrOwnerMixin_dispatch self get_object h request args)))
             \<longleftrightarrow> (\<exists>r. role (user request) = Some r \<and>
                   (r \<in> set [''admin'', ''researcher''] \<or>
                    owner_eq (getattr ob (owner_field self) PyNone) (user request)))))"
proof -
  let ?D = "StaffOrOwnerMixin_dispatch self get_object h request args"
  let ?passes = "\<lambda>r. r \<in> set [''admin'', ''researcher''] \<or>
                     owner_eq (getattr ob (owner_field self) PyNone) (user request)"
  have first: "take 1 (fst ?D) = [GetObject]"
    by (simp add: StaffOrOwnerMixin_dispatch_def emit_def)
  have rest: "take 3 (fst ?D) = [GetObject, GetAttr (owner_field self), ReadRole]
              \<and> (ReadIsAuthenticated \<in> set (drop 3 (fst ?D))
                   \<longleftrightarrow> (\<exists>r. role (user request) = Some r \<and> ?passes r))"
    if found: "get_object args = Inr ob"
  proof (cases "role (user request)")
    case None
    with found show ?thesis by (simp add: owner_no_role)
  next
    case (Some r)
    show ?thesis
    proof (cases "?passes r")
      case fails: False
      have "?D = ([GetObject, GetAttr (owner_field self), ReadRole,
                   MessageError ''You do not have permission to access this resource.''],
                  Raised PermissionDenied)"
        using found Some fails by (rule owner_test_fails)
      with Some fails show ?thesis by simp
    next
      case passes: True
      show ?thesis
      proof (cases "is_authenticated (user request)")
        case True
        have "?D = ([GetObject, GetAttr (owner_field self), ReadRole, ReadIsAuthenticated, CallView],
                    Returned (h request args))"
          using found Some passes True by (rule owner_test_passes_authenticated)
        with Some passes show ?thesis by simp
      next
        case False
        have "?D = ([GetObject, GetAttr (owner_field self), ReadRole, ReadIsAuthenticated,
                     ReadIsAuthenticated], RedirectToLogin (path request))"
          using found Some passes False by (rule owner_test_passes_unauthenticated)
        with Some passes show ?thesis by simp
      qed
    qed
  qed
  have failed: "?D = ([GetObject], Raised e)" if "get_object args = Inl e"
    using that by (rule owner_lookup_fails)
  from first failed rest show ?thesis by blast
qed

theorem staff_or_owner_reads_before_login_check_witness:
  "StaffOrOwnerMixin_dispatch StaffOrOwnerMixin (\<lambda>pk. Inr (owned_by member_user))
          (\<lambda>rq pk. ''form'') (request_of anonymous_user) (7::nat) =
     ([GetObject, GetAttr ''user'', ReadRole], Raised AttributeError)
   \<and> fst (StaffOrOwnerMixin_dispatch StaffOrOwnerMixin (\<lambda>pk. Inr (owned_by member_user))
          (\<lambda>rq pk. ''form'') (request_of other_member) (7::nat)) =
     [GetObject, GetAttr ''user'', ReadRole,
      MessageError ''You do not have permission to access this resource.'']
   \<and> take 3 (fst (StaffOrOwnerMixin_dispatch StaffOrOwnerMixin (\<lambda>pk. Inr (owned_by member_user))
          (\<lambda>rq pk. ''form'') (request_of admin_user) (7::nat))) =
     [GetObject, GetAttr ''user'', ReadRole]
   \<and> ReadIsAuthenticated \<in> set (drop 3 (fst (StaffOrOwnerMixin_dispatch StaffOrOwnerMixin
          (\<lambda>pk. Inr (owned_by member_user)) (\<lambda>rq pk. ''form'') (request_of admin_user) (7::nat))))
   \<and> StaffOrOwnerMixin_dispatch StaffOrOwnerMixin (\<lambda>pk. Inl Http404) (\<lambda>rq pk. ''form'')
          (request_of member_user) (7::nat) = ([GetObject], Raised Http404)"
  using staff_or_owner_reads_before_login_check [of StaffOrOwnerMixin "\<lambda>pk. Inr (owned_by member_user)"
        "\<lambda>rq pk. ''form''" "request_of anonymous_user" "7::nat" Http404 "owned_by member_user"]
    staff_or_owner_reads_before_login_check [of StaffOrOwnerMixin "\<lambda>pk. Inr (owned_by member_user)"
        "\<lambda>rq pk. ''form''" "request_of other_member" "7::nat" Http404 "owned_by member_user"]
    staff_or_owner_reads_before_login_check [of StaffOrOwnerMixin "\<lambda>pk. Inr (owned_by member_user)"
        "\<lambda>rq pk. ''form''" "request_of admin_user" "7::nat" Http404 "owned_by member_user"]
    staff_or_owner_reads_before_login_check [of StaffOrOwnerMixin "\<lambda>pk. Inl Http404"
        "\<lambda>rq pk. ''form''" "request_of member_user" "7::nat" Http404 "owned_by member_user"]
  by (simp add: sample_defs owner_defs getattr_def user_eq_def)

end
